theory Spec2Isabelle
  imports Main "HOL-Library.Word"
begin

section \<open>Value-or-error propagation through coroutine frames (main.cpp)\<close>

text \<open>
  The program defines two class templates, \<open>result<T>\<close> and \<open>promise<T>\<close>, that share one
  \<open>std::expected<T, uint64_t>\<close> through a \<open>std::shared_ptr\<close>. The shared cells live in a heap
  indexed by addresses; a \<open>shared_ptr\<close> is an address. Every pointer of the program comes
  from \<open>std::make_shared\<close> in the constructor of \<open>promise<T>\<close>, so it is never null, and
  shared ownership keeps the cell alive for as long as somebody can read it: the heap is a
  total function and cells are never freed.
\<close>

subsection \<open>std::expected<T, uint64_t>\<close>

type_synonym addr = nat

datatype 'v expected = Value 'v | Unexpected "64 word"

datatype fault = UndefinedBehaviour | BadExpectedAccess

fun has_value :: "'v expected \<Rightarrow> bool" where
  "has_value (Value v) = True"
| "has_value (Unexpected e) = False"

text \<open>\<open>expected::value()\<close> throws \<open>bad_expected_access\<close> when there is no value.\<close>

fun expected_value :: "'v expected \<Rightarrow> fault + 'v" where
  "expected_value (Value v) = Inr v"
| "expected_value (Unexpected e) = Inl BadExpectedAccess"

text \<open>\<open>expected::operator*\<close> is undefined when there is no value.\<close>

fun expected_star :: "'v expected \<Rightarrow> fault + 'v" where
  "expected_star (Value v) = Inr v"
| "expected_star (Unexpected e) = Inl UndefinedBehaviour"

text \<open>\<open>expected::error()\<close> is undefined when there is a value.\<close>

fun expected_error :: "'v expected \<Rightarrow> fault + 64 word" where
  "expected_error (Value v) = Inl UndefinedBehaviour"
| "expected_error (Unexpected e) = Inr e"

subsection \<open>The machine state\<close>

text \<open>
  The trace is ghost state: it records, in the order they happen, the writes to the shared
  cells, the construction and the release of the automatic objects of a frame, the
  side effects of its statements and the destruction of the frame. A frame is named in the
  trace by the address of its promise's cell, which is allocated once per invocation.
\<close>

type_synonym res = nat
type_synonym marker = nat

datatype 'v event =
    SlotWrite addr "'v expected"
  | Constructed addr res
  | Released addr res
  | Marked addr marker
  | FrameDestroyed addr

record 'v world =
  heap :: "addr \<Rightarrow> 'v expected"
  nxt :: addr
  trace :: "'v event list"

datatype result = Result (result_value: addr)

datatype promise = Promise (promise_value: addr)

text \<open>
  The coroutine state that a \<open>std::coroutine_handle<promise<U>>\<close> refers to: the promise,
  the automatic objects in scope at the current suspension point (the most recently
  constructed first), and whether the state has been destroyed.
\<close>

record frame =
  promise_of :: promise
  locals :: "res list"
  destroyed :: bool

abbreviation slot_of :: "frame \<Rightarrow> addr" where
  "slot_of h \<equiv> promise_value (promise_of h)"

datatype suspend = suspend_never | suspend_always

fun std_await_ready :: "suspend \<Rightarrow> bool" where
  "std_await_ready suspend_never = True"
| "std_await_ready suspend_always = False"

subsection \<open>promise<T>\<close>

text \<open>
  \<open>promise()\<close>: \<open>std::make_shared<std::expected<T, uint64_t>>()\<close> allocates a cell and
  default-constructs the expected in it, which value-initialises a \<open>T\<close>; the argument \<open>d\<close>
  is that \<open>T()\<close>.
\<close>

definition promise_ctor :: "'v \<Rightarrow> 'v world \<Rightarrow> promise \<times> 'v world" where
  "promise_ctor d w =
     (Promise (nxt w), w\<lparr>heap := (heap w)(nxt w := Value d), nxt := Suc (nxt w)\<rparr>)"

definition get_return_object :: "promise \<Rightarrow> result" where
  "get_return_object p = Result (promise_value p)"

definition initial_suspend :: "promise \<Rightarrow> suspend" where
  "initial_suspend p = suspend_never"

definition final_suspend :: "promise \<Rightarrow> suspend" where
  "final_suspend p = suspend_never"

text \<open>\<open>unhandled_exception()\<close> has an empty body.\<close>

definition unhandled_exception :: "promise \<Rightarrow> 'v world \<Rightarrow> 'v world" where
  "unhandled_exception p w = w"

text \<open>\<open>return_value(value)\<close> is the assignment \<open>*value_ = value\<close>; the trace records it.\<close>

definition return_value :: "promise \<Rightarrow> 'v expected \<Rightarrow> 'v world \<Rightarrow> 'v world" where
  "return_value p x w =
     w\<lparr>heap := (heap w)(promise_value p := x),
       trace := trace w @ [SlotWrite (promise_value p) x]\<rparr>"

subsection \<open>std::coroutine_handle\<close>

text \<open>
  Control leaving the body of a coroutine (by \<open>co_return\<close>, by an exception, or by the
  destruction of the suspended coroutine) destroys the automatic objects in scope, in the
  reverse order of their construction.
\<close>

definition leave_scope :: "frame \<Rightarrow> 'v world \<Rightarrow> frame \<times> 'v world" where
  "leave_scope h w =
     (h\<lparr>locals := []\<rparr>,
      w\<lparr>trace := trace w @ map (Released (promise_value (promise_of h))) (locals h)\<rparr>)"

definition free_state :: "frame \<Rightarrow> 'v world \<Rightarrow> frame \<times> 'v world" where
  "free_state h w =
     (h\<lparr>destroyed := True\<rparr>,
      w\<lparr>trace := trace w @ [FrameDestroyed (promise_value (promise_of h))]\<rparr>)"

text \<open>
  \<open>handle.destroy()\<close> on a suspended coroutine: control is taken to have left the body at
  the suspension point, then the coroutine state is freed.
\<close>

definition destroy :: "frame \<Rightarrow> 'v world \<Rightarrow> frame \<times> 'v world" where
  "destroy h w = (let (h1, w1) = leave_scope h w in free_state h1 w1)"

subsection \<open>result<T>\<close>

text \<open>
  The member functions of \<open>result<T>\<close>, in the order of the source. \<open>*value_\<close> is the
  expected in the cell \<open>heap w (result_value r)\<close>; \<open>handle.promise()\<close> is \<open>promise_of handle\<close>.
  \<open>await_resume\<close> dereferences the expected unchecked (\<open>**value_\<close>), \<open>operator*\<close> goes
  through \<open>value()\<close>, which checks.
\<close>

definition await_resume :: "result \<Rightarrow> 'v world \<Rightarrow> fault + 'v" where
  "await_resume r w = expected_star (heap w (result_value r))"

definition await_suspend ::
  "result \<Rightarrow> frame \<Rightarrow> 'v world \<Rightarrow> fault + (bool \<times> frame \<times> 'v world)" where
  "await_suspend r handle w =
     (if \<not> has_value (heap w (result_value r)) then
        (case expected_error (heap w (result_value r)) of
           Inl f \<Rightarrow> Inl f
         | Inr e \<Rightarrow>
             (let w1 = return_value (promise_of handle) (Unexpected e) w;
                  (handle', w2) = destroy handle w1
              in Inr (True, handle', w2)))
      else Inr (False, handle, w))"

definition await_ready :: "result \<Rightarrow> bool" where
  "await_ready r = False"

definition operator_bool :: "result \<Rightarrow> 'v world \<Rightarrow> bool" where
  "operator_bool r w = has_value (heap w (result_value r))"

definition operator_star :: "result \<Rightarrow> 'v world \<Rightarrow> fault + 'v" where
  "operator_star r w = expected_value (heap w (result_value r))"

definition error :: "result \<Rightarrow> 'v world \<Rightarrow> fault + 64 word" where
  "error r w = expected_error (heap w (result_value r))"

subsection \<open>The co_await expression\<close>

text \<open>
  \<open>co_await r\<close> in the coroutine of \<open>handle\<close>: \<open>await_ready\<close> is asked first; when it says
  no, the coroutine is suspended and \<open>await_suspend\<close> decides: \<open>true\<close> returns control to
  the caller of the coroutine, \<open>false\<close> resumes it. The value of the expression, on
  resumption, is \<open>await_resume()\<close>.
\<close>

datatype 'v awaited = Resumed 'v | Suspended | Crashed fault

definition resume :: "result \<Rightarrow> frame \<Rightarrow> 'v world \<Rightarrow> 'v awaited \<times> frame \<times> 'v world" where
  "resume r handle w =
     (case await_resume r w of
        Inl f \<Rightarrow> (Crashed f, handle, w)
      | Inr v \<Rightarrow> (Resumed v, handle, w))"

definition co_await :: "result \<Rightarrow> frame \<Rightarrow> 'v world \<Rightarrow> 'v awaited \<times> frame \<times> 'v world" where
  "co_await r handle w =
     (if await_ready r then resume r handle w
      else
        (case await_suspend r handle w of
           Inl f \<Rightarrow> (Crashed f, handle, w)
         | Inr (suspended, handle', w') \<Rightarrow>
             if suspended then (Suspended, handle', w') else resume r handle' w'))"

subsection \<open>Coroutine bodies\<close>

text \<open>
  The body of a function that returns \<open>result<T>\<close>, as the statements that matter here:
  \<open>co_return\<close> of a value or of \<open>std::unexpected(e)\<close>, an exception that leaves the body,
  the declaration of an automatic object, a statement with a side effect, and
  \<open>auto x = co_await f(...)\<close> followed by the rest of the body, which may use \<open>x\<close>;
  the callee \<open>f\<close> comes with the \<open>T()\<close> of its own \<open>result<T>\<close>.
  \<open>co_return\<close> stores through \<open>return_value\<close>, then control leaves the body and reaches
  the final suspension point. An exception unwinds the body, is handed to
  \<open>unhandled_exception\<close>, and control reaches the final suspension point as well.
\<close>

datatype 'v body =
    CoReturn "'v expected"
  | Throw
  | Local res "'v body"
  | Effect marker "'v body"
  | CoAwait 'v "'v body" "'v \<Rightarrow> 'v body"

datatype 'v outcome =
    Returned "'v expected"
  | Propagated
  | Faulted
  | NotStarted
  | Undefined fault

text \<open>
  The final suspension point: \<open>final_suspend\<close> is awaited, and a coroutine that does not
  suspend there frees its own state.
\<close>

definition at_final_suspend :: "frame \<Rightarrow> 'v world \<Rightarrow> frame \<times> 'v world" where
  "at_final_suspend h w =
     (if std_await_ready (final_suspend (promise_of h)) then free_state h w else (h, w))"

definition new_frame :: "promise \<Rightarrow> frame" where
  "new_frame p = \<lparr>promise_of = p, locals = [], destroyed = False\<rparr>"

primrec run :: "'v body \<Rightarrow> frame \<Rightarrow> 'v world \<Rightarrow> 'v outcome \<times> frame \<times> 'v world" where
  "run (CoReturn x) h w =
     (let w1 = return_value (promise_of h) x w;
          (h2, w2) = leave_scope h w1;
          (h3, w3) = at_final_suspend h2 w2
      in (Returned x, h3, w3))"
| "run Throw h w =
     (let (h1, w1) = leave_scope h w;
          w2 = unhandled_exception (promise_of h1) w1;
          (h3, w3) = at_final_suspend h1 w2
      in (Faulted, h3, w3))"
| "run (Local x k) h w =
     run k (h\<lparr>locals := x # locals h\<rparr>)
       (w\<lparr>trace := trace w @ [Constructed (promise_value (promise_of h)) x]\<rparr>)"
| "run (Effect m k) h w =
     run k h (w\<lparr>trace := trace w @ [Marked (promise_value (promise_of h)) m]\<rparr>)"
| "run (CoAwait d callee k) h w =
     (let (p, w1) = promise_ctor d w;
          r = get_return_object p;
          w2 = (if std_await_ready (initial_suspend p)
                then snd (snd (run callee (new_frame p) w1)) else w1)
      in case co_await r h w2 of
           (Resumed v, h', w') \<Rightarrow> run (k v) h' w'
         | (Suspended, h', w') \<Rightarrow> (Propagated, h', w')
         | (Crashed f, h', w') \<Rightarrow> (Undefined f, h', w'))"

text \<open>
  Calling a coroutine: the promise is constructed, the return object is taken from it,
  \<open>initial_suspend\<close> is awaited, and the body runs at once when that does not suspend. The
  caller gets the return object when the coroutine first suspends or ends.
\<close>

definition invoke :: "'v body \<Rightarrow> 'v \<Rightarrow> 'v world \<Rightarrow> result \<times> 'v outcome \<times> 'v world" where
  "invoke f d w =
     (let (p, w1) = promise_ctor d w;
          r = get_return_object p
      in if std_await_ready (initial_suspend p)
         then (let (out, h', w') = run f (new_frame p) w1 in (r, out, w'))
         else (r, NotStarted, w1))"

subsection \<open>Reading the trace\<close>

text \<open>
  The events of one frame, by kind: the values written to its cell, the automatic objects
  it constructed, the ones it released, the side effects of its statements.
\<close>

fun frame_of :: "'v event \<Rightarrow> addr" where
  "frame_of (SlotWrite a x) = a"
| "frame_of (Constructed a r) = a"
| "frame_of (Released a r) = a"
| "frame_of (Marked a m) = a"
| "frame_of (FrameDestroyed a) = a"

fun write_to :: "addr \<Rightarrow> 'v event \<Rightarrow> 'v expected list" where
  "write_to a (SlotWrite b x) = (if b = a then [x] else [])"
| "write_to a ev = []"

fun construction_in :: "addr \<Rightarrow> 'v event \<Rightarrow> res list" where
  "construction_in a (Constructed b r) = (if b = a then [r] else [])"
| "construction_in a ev = []"

fun release_in :: "addr \<Rightarrow> 'v event \<Rightarrow> res list" where
  "release_in a (Released b r) = (if b = a then [r] else [])"
| "release_in a ev = []"

fun mark_in :: "addr \<Rightarrow> 'v event \<Rightarrow> marker list" where
  "mark_in a (Marked b m) = (if b = a then [m] else [])"
| "mark_in a ev = []"

definition writes :: "addr \<Rightarrow> 'v event list \<Rightarrow> 'v expected list" where
  "writes a tr = concat (map (write_to a) tr)"

definition constructed :: "addr \<Rightarrow> 'v event list \<Rightarrow> res list" where
  "constructed a tr = concat (map (construction_in a) tr)"

definition released :: "addr \<Rightarrow> 'v event list \<Rightarrow> res list" where
  "released a tr = concat (map (release_in a) tr)"

definition marks :: "addr \<Rightarrow> 'v event list \<Rightarrow> marker list" where
  "marks a tr = concat (map (mark_in a) tr)"

fun body_event :: "addr \<Rightarrow> addr \<Rightarrow> 'v event \<Rightarrow> bool" where
  "body_event a n (Constructed b r) = (b = a \<or> n \<le> b)"
| "body_event a n (Marked b m) = (b = a \<or> n \<le> b)"
| "body_event a n ev = (n \<le> frame_of ev)"

fun final_write :: "addr \<Rightarrow> 'v outcome \<Rightarrow> 'v expected \<Rightarrow> 'v event list" where
  "final_write a (Returned x) s = [SlotWrite a x]"
| "final_write a Propagated s = [SlotWrite a s]"
| "final_write a out s = []"

fun slot_after :: "'v outcome \<Rightarrow> 'v expected \<Rightarrow> 'v expected \<Rightarrow> bool" where
  "slot_after (Returned x) s s' = (s' = x)"
| "slot_after Propagated s s' = (\<not> has_value s')"
| "slot_after Faulted s s' = (s' = s)"
| "slot_after out s s' = False"

text \<open>
  The trace of one whole run of a frame \<open>a\<close>, started in the world \<open>w\<close> and ended in \<open>w'\<close>:
  the events \<open>pre\<close> of the body (constructions and side effects of the frame itself,
  anything of the frames it called, which are all allocated later), then the write that
  ends the run, the releases and the destruction of the coroutine state.
\<close>

definition shape ::
  "addr \<Rightarrow> frame \<Rightarrow> 'v world \<Rightarrow> 'v outcome \<Rightarrow> frame \<Rightarrow> 'v world \<Rightarrow> 'v event list \<Rightarrow> bool" where
  "shape a h w out h' w' pre \<longleftrightarrow>
     trace w' = trace w @ pre @ final_write a out (heap w' a)
                 @ map (Released a) (rev (constructed a pre) @ locals h) @ [FrameDestroyed a]
     \<and> list_all (body_event a (nxt w)) pre
     \<and> nxt w \<le> nxt w'
     \<and> (\<forall>b<nxt w. b \<noteq> a \<longrightarrow> heap w' b = heap w b)
     \<and> h' = h\<lparr>locals := [], destroyed := True\<rparr>
     \<and> slot_after out (heap w a) (heap w' a)"

text \<open>
  What a body that awaits nothing hands to \<open>co_return\<close>; \<open>None\<close> for a body that awaits
  or that ends by an exception.
\<close>

primrec leaf_return :: "'v body \<Rightarrow> 'v expected option" where
  "leaf_return (CoReturn x) = Some x"
| "leaf_return Throw = None"
| "leaf_return (Local x k) = leaf_return k"
| "leaf_return (Effect m k) = leaf_return k"
| "leaf_return (CoAwait d callee k) = None"

text \<open>A world in which nothing has been allocated yet.\<close>

definition world0 :: "nat world" where
  "world0 = \<lparr>heap = (\<lambda>a. Value 0), nxt = 0, trace = []\<rparr>"

text \<open>
  The world in which one coroutine, whose \<open>T()\<close> is \<open>0\<close>, has just been called: its promise
  owns cell \<open>0\<close> and its body is about to run in \<open>frame0\<close>.
\<close>

definition world1 :: "nat world" where
  "world1 = snd (promise_ctor 0 world0)"

definition frame0 :: frame where
  "frame0 = new_frame (fst (promise_ctor (0::nat) world0))"

section \<open>Properties of the trace and of single steps\<close>

lemma writes_simps [simp]:
  "writes a [] = []" "writes a (ev # tr) = write_to a ev @ writes a tr"
  "writes a (tr @ tr') = writes a tr @ writes a tr'"
  by (simp_all add: writes_def)

lemma constructed_simps [simp]:
  "constructed a [] = []" "constructed a (ev # tr) = construction_in a ev @ constructed a tr"
  "constructed a (tr @ tr') = constructed a tr @ constructed a tr'"
  by (simp_all add: constructed_def)

lemma released_simps [simp]:
  "released a [] = []" "released a (ev # tr) = release_in a ev @ released a tr"
  "released a (tr @ tr') = released a tr @ released a tr'"
  by (simp_all add: released_def)

lemma marks_simps [simp]:
  "marks a [] = []" "marks a (ev # tr) = mark_in a ev @ marks a tr"
  "marks a (tr @ tr') = marks a tr @ marks a tr'"
  by (simp_all add: marks_def)

lemma released_map_Released [simp]: "released a (map (Released a) rs) = rs"
  by (induction rs) simp_all

lemma writes_map_Released [simp]: "writes a (map (Released b) rs) = []"
  by (induction rs) simp_all

lemma constructed_map_Released [simp]: "constructed a (map (Released b) rs) = []"
  by (induction rs) simp_all

lemma marks_map_Released [simp]: "marks a (map (Released b) rs) = []"
  by (induction rs) simp_all

lemma body_event_mono: "body_event a n ev \<Longrightarrow> m \<le> n \<Longrightarrow> body_event a m ev"
  by (cases ev) auto

lemma body_event_later: "n \<le> frame_of ev \<Longrightarrow> body_event a n ev"
  by (cases ev) auto

lemma body_event_frame: "body_event a n ev \<Longrightarrow> a < n \<Longrightarrow> a \<le> frame_of ev"
  by (cases ev) auto

lemma body_events_quiet:
  "list_all (body_event b n) tr \<Longrightarrow> a < n \<Longrightarrow> writes a tr = [] \<and> released a tr = []"
proof (induction tr)
  case Nil
  show ?case by simp
next
  case (Cons ev tr)
  then show ?case by (cases ev) auto
qed

lemma later_events_quiet:
  "list_all (\<lambda>ev. n \<le> frame_of ev) tr \<Longrightarrow> a < n \<Longrightarrow>
   writes a tr = [] \<and> released a tr = [] \<and> constructed a tr = [] \<and> marks a tr = []"
proof (induction tr)
  case Nil
  show ?case by simp
next
  case (Cons ev tr)
  then show ?case by (cases ev) auto
qed

lemma co_await_error:
  assumes "heap w (result_value r) = Unexpected e"
  shows "co_await r h w =
          (Suspended, h\<lparr>locals := [], destroyed := True\<rparr>,
           w\<lparr>heap := (heap w)(promise_value (promise_of h) := Unexpected e),
             trace := trace w @ SlotWrite (promise_value (promise_of h)) (Unexpected e)
                       # map (Released (promise_value (promise_of h))) (locals h)
                       @ [FrameDestroyed (promise_value (promise_of h))]\<rparr>)"
  using assms
  by (simp add: co_await_def await_ready_def await_suspend_def return_value_def destroy_def
      leave_scope_def free_state_def)

lemma co_await_value:
  assumes "heap w (result_value r) = Value v"
  shows "co_await r h w = (Resumed v, h, w)"
  using assms
  by (simp add: co_await_def await_ready_def await_suspend_def resume_def await_resume_def)

lemma run_CoReturn:
  "run (CoReturn x) h w =
     (Returned x, h\<lparr>locals := [], destroyed := True\<rparr>,
      w\<lparr>heap := (heap w)(promise_value (promise_of h) := x),
        trace := trace w @ SlotWrite (promise_value (promise_of h)) x
                  # map (Released (promise_value (promise_of h))) (locals h)
                  @ [FrameDestroyed (promise_value (promise_of h))]\<rparr>)"
  by (simp add: return_value_def leave_scope_def at_final_suspend_def final_suspend_def
      free_state_def)

lemma run_Throw:
  "run Throw h w =
     (Faulted, h\<lparr>locals := [], destroyed := True\<rparr>,
      w\<lparr>trace := trace w @ map (Released (promise_value (promise_of h))) (locals h)
                  @ [FrameDestroyed (promise_value (promise_of h))]\<rparr>)"
  by (simp add: unhandled_exception_def leave_scope_def at_final_suspend_def final_suspend_def
      free_state_def)

lemma run_CoAwait:
  "run (CoAwait d callee k) h w =
     (case invoke callee d w of
        (r, oc, w2) \<Rightarrow>
          (case co_await r h w2 of
             (Resumed v, h', w') \<Rightarrow> run (k v) h' w'
           | (Suspended, h', w') \<Rightarrow> (Propagated, h', w')
           | (Crashed f, h', w') \<Rightarrow> (Undefined f, h', w')))"
  by (simp add: invoke_def Let_def split: prod.splits)


lemma shape_later:
  assumes "shape c h w out h' w' pre" and "c < nxt w" and "n \<le> c"
  shows "list_all (\<lambda>ev. n \<le> frame_of ev)
           (pre @ final_write c out (heap w' c)
              @ map (Released c) (rev (constructed c pre) @ locals h) @ [FrameDestroyed c])"
proof -
  from assms(1) have "list_all (body_event c (nxt w)) pre"
    by (simp add: shape_def)
  then have "list_all (\<lambda>ev. n \<le> frame_of ev) pre"
    using body_event_frame [OF _ assms(2)] assms(3)
    by (auto simp: list_all_iff intro: order_trans)
  moreover have "list_all (\<lambda>ev. n \<le> frame_of ev) (final_write c out (heap w' c))"
    using assms(3) by (cases out) simp_all
  ultimately show ?thesis
    using assms(3) by (simp add: list_all_iff image_iff) auto
qed

lemma run_shape:
  "promise_value (promise_of h) = a \<Longrightarrow> a < nxt w \<Longrightarrow> run f h w = (out, h', w') \<Longrightarrow>
   \<exists>pre. shape a h w out h' w' pre"
proof (induction f arbitrary: a h w out h' w')
  case (CoReturn x)
  then have "shape a h w out h' w' []"
    by (auto simp: run_CoReturn shape_def simp del: run.simps)
  then show ?case ..
next
  case Throw
  then have "shape a h w out h' w' []"
    by (auto simp: run_Throw shape_def simp del: run.simps)
  then show ?case ..
next
  case (Local x k)
  let ?h1 = "h\<lparr>locals := x # locals h\<rparr>"
  let ?w1 = "w\<lparr>trace := trace w @ [Constructed a x]\<rparr>"
  from Local.prems have "run k ?h1 ?w1 = (out, h', w')" by simp
  with Local.IH [of ?h1 a ?w1 out h' w'] Local.prems
  obtain pre where "shape a ?h1 ?w1 out h' w' pre" by auto
  then have "shape a h w out h' w' (Constructed a x # pre)"
    by (simp add: shape_def)
  then show ?case ..
next
  case (Effect m k)
  let ?w1 = "w\<lparr>trace := trace w @ [Marked a m]\<rparr>"
  from Effect.prems have "run k h ?w1 = (out, h', w')" by simp
  with Effect.IH [of h a ?w1 out h' w'] Effect.prems
  obtain pre where "shape a h ?w1 out h' w' pre" by auto
  then have "shape a h w out h' w' (Marked a m # pre)"
    by (simp add: shape_def)
  then show ?case ..
next
  case (CoAwait d callee k)
  define c where "c = nxt w"
  define w1 where "w1 = w\<lparr>heap := (heap w)(c := Value d), nxt := Suc c\<rparr>"
  define hc where "hc = new_frame (Promise c)"
  obtain oc hc' w2 where callee: "run callee hc w1 = (oc, hc', w2)"
    by (cases "run callee hc w1") auto
  have "promise_value (promise_of hc) = c" "c < nxt w1" "locals hc = []"
    by (simp_all add: hc_def w1_def new_frame_def)
  with CoAwait.IH(1) [OF _ _ callee]
  obtain prec where prec: "shape c hc w1 oc hc' w2 prec" by blast
  define cev where "cev = prec @ final_write c oc (heap w2 c)
      @ map (Released c) (rev (constructed c prec) @ locals hc) @ [FrameDestroyed c]"
  have ac: "a < c" using CoAwait.prems(2) by (simp add: c_def)
  have later: "list_all (\<lambda>ev. nxt w \<le> frame_of ev) cev"
    unfolding cev_def
    by (rule shape_later [OF prec]) (simp_all add: w1_def c_def)
  have quiet: "writes a cev = []" "released a cev = []" "constructed a cev = []"
    using later_events_quiet [OF later CoAwait.prems(2)] by simp_all
  have tr2: "trace w2 = trace w @ cev"
    using prec by (simp add: shape_def cev_def w1_def)
  have nx2: "Suc (nxt w) \<le> nxt w2"
    using prec by (simp add: shape_def w1_def c_def)
  have hp2: "\<forall>b<nxt w. heap w2 b = heap w b"
    using prec by (auto simp: shape_def w1_def c_def)
  have bev: "list_all (body_event a (nxt w)) cev"
    using later by (auto simp: list_all_iff intro: body_event_later)
  have inv: "invoke callee d w = (Result c, oc, w2)"
    using callee
    by (simp add: invoke_def promise_ctor_def get_return_object_def initial_suspend_def
        c_def w1_def hc_def)
  show ?case
  proof (cases "heap w2 c")
    case (Unexpected e)
    from CoAwait.prems(3) have "(out, h', w') =
        (Propagated, h\<lparr>locals := [], destroyed := True\<rparr>,
         w2\<lparr>heap := (heap w2)(a := Unexpected e),
            trace := trace w2 @ SlotWrite a (Unexpected e)
                      # map (Released a) (locals h) @ [FrameDestroyed a]\<rparr>)"
      using co_await_error [of w2 "Result c" e h] Unexpected CoAwait.prems(1)
      by (simp add: run_CoAwait inv del: run.simps)
    then have "shape a h w out h' w' cev"
      using tr2 nx2 hp2 bev quiet by (auto simp: shape_def)
    then show ?thesis ..
  next
    case (Value v)
    from CoAwait.prems(3) have rk: "run (k v) h w2 = (out, h', w')"
      using co_await_value [of w2 "Result c" v h] Value
      by (simp add: run_CoAwait inv del: run.simps)
    have "a < nxt w2" using nx2 CoAwait.prems(2) by simp
    with CoAwait.IH(2) [OF _ CoAwait.prems(1) _ rk]
    obtain prek where prek: "shape a h w2 out h' w' prek" by blast
    have "list_all (body_event a (nxt w)) prek"
      using prek nx2 by (auto simp: shape_def list_all_iff intro: body_event_mono)
    then have "shape a h w out h' w' (cev @ prek)"
      using prek tr2 nx2 hp2 bev quiet CoAwait.prems(2) by (auto simp: shape_def)
    then show ?thesis ..
  qed
qed

lemma invoke_run:
  "invoke f d w =
     (case run f (new_frame (Promise (nxt w)))
             (w\<lparr>heap := (heap w)(nxt w := Value d), nxt := Suc (nxt w)\<rparr>) of
        (out, h', w') \<Rightarrow> (Result (nxt w), out, w'))"
  by (simp add: invoke_def promise_ctor_def get_return_object_def initial_suspend_def)

lemma invoke_shape:
  assumes "invoke f d w = (r, out, w')"
  shows "\<exists>pre. r = Result (nxt w)
     \<and> trace w' = trace w @ pre @ final_write (nxt w) out (heap w' (nxt w))
         @ map (Released (nxt w)) (rev (constructed (nxt w) pre)) @ [FrameDestroyed (nxt w)]
     \<and> list_all (body_event (nxt w) (Suc (nxt w))) pre
     \<and> slot_after out (Value d) (heap w' (nxt w))
     \<and> (\<forall>b<nxt w. heap w' b = heap w b)
     \<and> Suc (nxt w) \<le> nxt w'"
proof -
  let ?h = "new_frame (Promise (nxt w))"
  let ?w1 = "w\<lparr>heap := (heap w)(nxt w := Value d), nxt := Suc (nxt w)\<rparr>"
  obtain h' where r: "run f ?h ?w1 = (out, h', w')" and res: "r = Result (nxt w)"
    using assms by (auto simp: invoke_run split: prod.splits)
  have "promise_value (promise_of ?h) = nxt w" "nxt w < nxt ?w1"
    by (simp_all add: new_frame_def)
  from run_shape [OF this r] obtain pre where "shape (nxt w) ?h ?w1 out h' w' pre" ..
  then show ?thesis
    using res by (auto simp: shape_def new_frame_def)
qed

lemma world1_eq: "world1 = world0\<lparr>heap := (heap world0)(0 := Value 0), nxt := Suc 0\<rparr>"
  by (simp add: world1_def promise_ctor_def world0_def)

lemma frame0_eq: "frame0 = \<lparr>promise_of = Promise 0, locals = [], destroyed = False\<rparr>"
  by (simp add: frame0_def promise_ctor_def world0_def new_frame_def)

lemma leaf_run: "leaf_return f = Some x \<Longrightarrow> fst (run f h w) = Returned x"
  by (induction f arbitrary: h w) (simp_all add: Let_def split: prod.splits)

lemma run_quiet:
  assumes "run g h w = (out, h', w')" and "slot_of h < nxt w" and "a < nxt w" and "slot_of h \<noteq> a"
  shows "heap w' a = heap w a \<and> (\<exists>new. trace w' = trace w @ new \<and> writes a new = [])"
proof -
  from run_shape [OF refl assms(2,1)] obtain pre where s: "shape (slot_of h) h w out h' w' pre" ..
  then have "writes a pre = []"
    using body_events_quiet [of "slot_of h" "nxt w" pre a] assms(3) by (simp add: shape_def)
  moreover have "writes a (final_write (slot_of h) out (heap w' (slot_of h))) = []"
    using assms(4) by (cases out) simp_all
  ultimately have "writes a (pre @ final_write (slot_of h) out (heap w' (slot_of h))
      @ map (Released (slot_of h)) (rev (constructed (slot_of h) pre) @ locals h)
      @ [FrameDestroyed (slot_of h)]) = []"
    by simp
  with s assms(3,4) show ?thesis
    by (auto simp: shape_def)
qed

section \<open>The suspension protocol\<close>

text \<open>
  C8. The ready-check \<open>await_ready\<close> answers "not ready" for every carrier, whatever the
  cell holds, so \<open>co_await\<close> always goes through the suspend-decision \<open>await_suspend\<close>: the
  result of \<open>co_await\<close> is what \<open>await_suspend\<close> decides, then \<open>await_resume\<close> when it
  decides to resume.
\<close>

theorem ready_check_never_ready:
  "await_ready r = False \<and>
   co_await r h w =
     (case await_suspend r h w of
        Inl f \<Rightarrow> (Crashed f, h, w)
      | Inr (suspended, h', w') \<Rightarrow>
          if suspended then (Suspended, h', w') else resume r h' w')"
  by (simp add: await_ready_def co_await_def)

text \<open>
  C3. When the awaited carrier tests true and holds the value \<open>v\<close>, \<open>co_await\<close> resumes the
  awaiting frame at once with exactly \<open>v\<close>: the frame comes back as it was (its automatic
  objects in place, not destroyed) and so does the world (no cell is written, the awaiting
  frame's own cell included, and nothing is added to the trace). The body goes on with the
  statements after the await, with \<open>v\<close> for the value of the expression.
\<close>

theorem value_resumes_at_once:
  assumes "invoke callee dc w = (r, oc, w1)"
    and "operator_bool r w1" and "operator_star r w1 = Inr v"
  shows "co_await r h w1 = (Resumed v, h, w1) \<and>
         run (CoAwait dc callee k) h w = run (k v) h w1"
proof -
  from assms(2,3) have "heap w1 (result_value r) = Value v"
    by (cases "heap w1 (result_value r)") (simp_all add: operator_bool_def operator_star_def)
  then have "co_await r h w1 = (Resumed v, h, w1)"
    by (rule co_await_value)
  then show ?thesis
    using assms(1) by (simp add: run_CoAwait del: run.simps)
qed

theorem value_resumes_at_once_witness:
  "invoke (CoReturn (Value 7)) 0 world1 =
     (Result 1, Returned (Value 7),
      world1\<lparr>heap := (heap world1)(1 := Value 7), nxt := 2,
             trace := [SlotWrite 1 (Value 7), FrameDestroyed 1]\<rparr>)
   \<and> operator_bool (Result 1)
       (world1\<lparr>heap := (heap world1)(1 := Value 7), nxt := 2,
               trace := [SlotWrite 1 (Value 7), FrameDestroyed 1]\<rparr>)
   \<and> operator_star (Result 1)
       (world1\<lparr>heap := (heap world1)(1 := Value 7), nxt := 2,
               trace := [SlotWrite 1 (Value 7), FrameDestroyed 1]\<rparr>) = Inr 7
   \<and> co_await (Result 1) (frame0\<lparr>locals := [4]\<rparr>)
       (world1\<lparr>heap := (heap world1)(1 := Value 7), nxt := 2,
               trace := [SlotWrite 1 (Value 7), FrameDestroyed 1]\<rparr>)
     = (Resumed 7, frame0\<lparr>locals := [4]\<rparr>,
        world1\<lparr>heap := (heap world1)(1 := Value 7), nxt := 2,
               trace := [SlotWrite 1 (Value 7), FrameDestroyed 1]\<rparr>)
   \<and> run (CoAwait 0 (CoReturn (Value 7)) (\<lambda>v. CoReturn (Value (v + 1))))
         (frame0\<lparr>locals := [4]\<rparr>) world1
     = (Returned (Value 8), frame0\<lparr>locals := [], destroyed := True\<rparr>,
        world1\<lparr>heap := (heap world1)(1 := Value 7, 0 := Value 8), nxt := 2,
               trace := [SlotWrite 1 (Value 7), FrameDestroyed 1,
                         SlotWrite 0 (Value 8), Released 0 4, FrameDestroyed 0]\<rparr>)"
proof -
  let ?w1 = "world1\<lparr>heap := (heap world1)(1 := Value 7), nxt := 2,
               trace := [SlotWrite 1 (Value 7), FrameDestroyed 1]\<rparr>"
  have a: "invoke (CoReturn (Value 7)) 0 world1 = (Result 1, Returned (Value 7), ?w1)"
    by (simp add: invoke_run run_CoReturn world1_eq world0_def new_frame_def del: run.simps)
  have b: "operator_bool (Result 1) ?w1"
    by (simp add: operator_bool_def)
  have c: "operator_star (Result 1) ?w1 = Inr 7"
    by (simp add: operator_star_def)
  have d: "run (CoReturn (Value (7 + 1))) (frame0\<lparr>locals := [4]\<rparr>) ?w1
     = (Returned (Value 8), frame0\<lparr>locals := [], destroyed := True\<rparr>,
        world1\<lparr>heap := (heap world1)(1 := Value 7, 0 := Value 8), nxt := 2,
               trace := [SlotWrite 1 (Value 7), FrameDestroyed 1,
                         SlotWrite 0 (Value 8), Released 0 4, FrameDestroyed 0]\<rparr>)"
    by (simp add: run_CoReturn frame0_eq del: run.simps)
  from value_resumes_at_once [OF a b c, of "frame0\<lparr>locals := [4]\<rparr>" "\<lambda>v. CoReturn (Value (v + 1))"]
    a b c d show ?thesis
    by (simp del: run.simps)
qed

text \<open>
  C1. When the awaited carrier holds the error code \<open>E\<close>, the awaiting frame ends there:
  its own cell receives \<open>Unexpected E\<close>, the very code that was read, so its carrier tests
  false and its error accessor gives \<open>E\<close>; the result does not depend on the statements
  \<open>k\<close> after the await, none of which runs: after the callee has returned, the trace only
  gains the write, the releases and the destruction of the frame, and no side effect of
  the frame is added.
\<close>

theorem error_propagates_unchanged:
  assumes "invoke callee dc w = (r, oc, w1)"
    and "\<not> operator_bool r w1" and "error r w1 = Inr E"
  shows "run (CoAwait dc callee k) h w =
           (Propagated, h\<lparr>locals := [], destroyed := True\<rparr>,
            w1\<lparr>heap := (heap w1)(slot_of h := Unexpected E),
               trace := trace w1 @ SlotWrite (slot_of h) (Unexpected E)
                         # map (Released (slot_of h)) (locals h) @ [FrameDestroyed (slot_of h)]\<rparr>)
         \<and> \<not> operator_bool (get_return_object (promise_of h))
               (snd (snd (run (CoAwait dc callee k) h w)))
         \<and> error (get_return_object (promise_of h))
               (snd (snd (run (CoAwait dc callee k) h w))) = Inr E
         \<and> marks (slot_of h) (trace (snd (snd (run (CoAwait dc callee k) h w))))
             = marks (slot_of h) (trace w1)"
proof -
  from assms(2,3) have "heap w1 (result_value r) = Unexpected E"
    by (cases "heap w1 (result_value r)") (simp_all add: operator_bool_def error_def)
  from co_await_error [OF this, of h] assms(1)
  have "run (CoAwait dc callee k) h w =
           (Propagated, h\<lparr>locals := [], destroyed := True\<rparr>,
            w1\<lparr>heap := (heap w1)(slot_of h := Unexpected E),
               trace := trace w1 @ SlotWrite (slot_of h) (Unexpected E)
                         # map (Released (slot_of h)) (locals h) @ [FrameDestroyed (slot_of h)]\<rparr>)"
    by (simp add: run_CoAwait del: run.simps)
  then show ?thesis
    by (simp add: operator_bool_def error_def get_return_object_def del: run.simps)
qed

theorem error_propagates_unchanged_witness:
  "invoke (CoReturn (Unexpected 13)) 0 world1 =
     (Result 1, Returned (Unexpected 13),
      world1\<lparr>heap := (heap world1)(1 := Unexpected 13), nxt := 2,
             trace := [SlotWrite 1 (Unexpected 13), FrameDestroyed 1]\<rparr>)
   \<and> \<not> operator_bool (Result 1)
       (world1\<lparr>heap := (heap world1)(1 := Unexpected 13), nxt := 2,
               trace := [SlotWrite 1 (Unexpected 13), FrameDestroyed 1]\<rparr>)
   \<and> error (Result 1)
       (world1\<lparr>heap := (heap world1)(1 := Unexpected 13), nxt := 2,
               trace := [SlotWrite 1 (Unexpected 13), FrameDestroyed 1]\<rparr>) = Inr 13
   \<and> run (CoAwait 0 (CoReturn (Unexpected 13)) (\<lambda>v. Effect 9 (CoReturn (Value v))))
         (frame0\<lparr>locals := [4]\<rparr>) world1
     = (Propagated, frame0\<lparr>locals := [], destroyed := True\<rparr>,
        world1\<lparr>heap := (heap world1)(1 := Unexpected 13, 0 := Unexpected 13), nxt := 2,
               trace := [SlotWrite 1 (Unexpected 13), FrameDestroyed 1,
                         SlotWrite 0 (Unexpected 13), Released 0 4, FrameDestroyed 0]\<rparr>)"
proof -
  let ?w1 = "world1\<lparr>heap := (heap world1)(1 := Unexpected 13), nxt := 2,
               trace := [SlotWrite 1 (Unexpected 13), FrameDestroyed 1]\<rparr>"
  have a: "invoke (CoReturn (Unexpected 13)) 0 world1 = (Result 1, Returned (Unexpected 13), ?w1)"
    by (simp add: invoke_run run_CoReturn world1_eq world0_def new_frame_def del: run.simps)
  have b: "\<not> operator_bool (Result 1) ?w1"
    by (simp add: operator_bool_def)
  have c: "error (Result 1) ?w1 = Inr 13"
    by (simp add: error_def)
  from error_propagates_unchanged [OF a b c, of "\<lambda>v. Effect 9 (CoReturn (Value v))" "frame0\<lparr>locals := [4]\<rparr>"]
    a b c show ?thesis
    by (simp add: frame0_eq del: run.simps)
qed

text \<open>
  C10. \<open>await_resume\<close> is reached only after \<open>await_ready\<close> has said "not ready" and
  \<open>await_suspend\<close> has returned \<open>false\<close>; the cell then holds a value, so the unchecked
  \<open>**value_\<close> of \<open>await_resume\<close> gives what the checked access gives and is never the
  undefined dereference of an error; \<open>co_await\<close> as a whole never crashes.
\<close>

theorem await_resume_only_on_value:
  assumes "\<not> await_ready r" and "await_suspend r h w = Inr (False, h', w')"
  shows "has_value (heap w' (result_value r))
       \<and> await_resume r w' = expected_value (heap w' (result_value r))
       \<and> await_resume r w' \<noteq> Inl UndefinedBehaviour
       \<and> (\<forall>f. fst (co_await r h w) \<noteq> Crashed f)"
proof (cases "heap w (result_value r)")
  case (Value v)
  with assms(2) have "w' = w"
    by (simp add: await_suspend_def)
  with Value show ?thesis
    by (simp add: await_resume_def co_await_value)
next
  case (Unexpected e)
  with assms(2) show ?thesis
    by (simp add: await_suspend_def Let_def split: prod.splits)
qed

theorem await_resume_only_on_value_witness:
  "\<not> await_ready (Result 0)
   \<and> await_suspend (Result 0) (new_frame (Promise 1))
       (world1\<lparr>heap := (heap world1)(1 := Value 0), nxt := 2\<rparr>)
     = Inr (False, new_frame (Promise 1), world1\<lparr>heap := (heap world1)(1 := Value 0), nxt := 2\<rparr>)
   \<and> await_resume (Result 0) (world1\<lparr>heap := (heap world1)(1 := Value 0), nxt := 2\<rparr>) = Inr 0"
proof -
  let ?w = "world1\<lparr>heap := (heap world1)(1 := Value 0), nxt := 2\<rparr>"
  have a: "\<not> await_ready (Result 0)"
    by (simp add: await_ready_def)
  have b: "await_suspend (Result 0) (new_frame (Promise 1)) ?w = Inr (False, new_frame (Promise 1), ?w)"
    by (simp add: await_suspend_def world1_eq)
  from await_resume_only_on_value [OF a b] a b show ?thesis
    by (simp add: world1_eq)
qed

section \<open>Whole frames\<close>

text \<open>
  C4. A frame whose body ends by \<open>co_return v\<close> leaves a carrier that tests true and whose
  dereference gives exactly \<open>v\<close>, in the world in which the call returns.
\<close>

theorem value_finalize_observed:
  assumes "invoke f d w = (r, Returned (Value v), w')"
  shows "operator_bool r w' \<and> operator_star r w' = Inr v"
  using invoke_shape [OF assms] by (auto simp: operator_bool_def operator_star_def)

theorem value_finalize_observed_witness:
  "invoke (Local 3 (CoReturn (Value 5))) 0 world0 =
     (Result 0, Returned (Value 5),
      world0\<lparr>heap := (heap world0)(0 := Value 5), nxt := 1,
             trace := [Constructed 0 3, SlotWrite 0 (Value 5), Released 0 3, FrameDestroyed 0]\<rparr>)
   \<and> operator_bool (Result 0)
       (world0\<lparr>heap := (heap world0)(0 := Value 5), nxt := 1,
             trace := [Constructed 0 3, SlotWrite 0 (Value 5), Released 0 3, FrameDestroyed 0]\<rparr>)
   \<and> operator_star (Result 0)
       (world0\<lparr>heap := (heap world0)(0 := Value 5), nxt := 1,
             trace := [Constructed 0 3, SlotWrite 0 (Value 5), Released 0 3, FrameDestroyed 0]\<rparr>)
     = Inr 5"
proof -
  have a: "invoke (Local 3 (CoReturn (Value 5))) 0 world0 =
     (Result 0, Returned (Value 5),
      world0\<lparr>heap := (heap world0)(0 := Value 5), nxt := 1,
             trace := [Constructed 0 3, SlotWrite 0 (Value 5), Released 0 3, FrameDestroyed 0]\<rparr>)"
    by (simp add: invoke_run run_CoReturn world0_def new_frame_def del: run.simps(1))
  from value_finalize_observed [OF a] a show ?thesis
    by simp
qed

text \<open>
  C5. A frame whose body awaits nothing and ends by \<open>co_return std::unexpected(e)\<close> (a leaf
  error) does end by that \<open>co_return\<close>, and leaves a carrier that tests false and whose
  error accessor gives exactly \<open>e\<close>.
\<close>

theorem leaf_error_observed:
  assumes "leaf_return f = Some (Unexpected e)" and "invoke f d w = (r, out, w')"
  shows "out = Returned (Unexpected e) \<and> \<not> operator_bool r w' \<and> error r w' = Inr e"
proof -
  from assms(2) have "out = fst (run f (new_frame (Promise (nxt w)))
             (w\<lparr>heap := (heap w)(nxt w := Value d), nxt := Suc (nxt w)\<rparr>))"
    by (auto simp: invoke_run split: prod.splits)
  with leaf_run [OF assms(1)] have out: "out = Returned (Unexpected e)"
    by simp
  with invoke_shape [OF assms(2)] show ?thesis
    by (auto simp: operator_bool_def error_def)
qed

theorem leaf_error_observed_witness:
  "leaf_return (Local 3 (Effect 8 (CoReturn (Unexpected 2)))) = Some (Unexpected 2)
   \<and> invoke (Local 3 (Effect 8 (CoReturn (Unexpected 2)))) 0 world0 =
     (Result 0, Returned (Unexpected 2),
      world0\<lparr>heap := (heap world0)(0 := Unexpected 2), nxt := 1,
             trace := [Constructed 0 3, Marked 0 8, SlotWrite 0 (Unexpected 2), Released 0 3,
                       FrameDestroyed 0]\<rparr>)
   \<and> \<not> operator_bool (Result 0)
       (world0\<lparr>heap := (heap world0)(0 := Unexpected 2), nxt := 1,
             trace := [Constructed 0 3, Marked 0 8, SlotWrite 0 (Unexpected 2), Released 0 3,
                       FrameDestroyed 0]\<rparr>)
   \<and> error (Result 0)
       (world0\<lparr>heap := (heap world0)(0 := Unexpected 2), nxt := 1,
             trace := [Constructed 0 3, Marked 0 8, SlotWrite 0 (Unexpected 2), Released 0 3,
                       FrameDestroyed 0]\<rparr>)
     = Inr 2"
proof -
  have a: "leaf_return (Local 3 (Effect 8 (CoReturn (Unexpected 2)))) = Some (Unexpected 2)"
    by simp
  have b: "invoke (Local 3 (Effect 8 (CoReturn (Unexpected 2)))) 0 world0 =
     (Result 0, Returned (Unexpected 2),
      world0\<lparr>heap := (heap world0)(0 := Unexpected 2), nxt := 1,
             trace := [Constructed 0 3, Marked 0 8, SlotWrite 0 (Unexpected 2), Released 0 3,
                       FrameDestroyed 0]\<rparr>)"
    by (simp add: invoke_run run_CoReturn world0_def new_frame_def del: run.simps(1))
  from leaf_error_observed [OF a b] a b show ?thesis
    by simp
qed

text \<open>
  C9. A frame whose body ends by an exception: \<open>unhandled_exception\<close> does nothing, no
  write to the frame's cell happens during the whole call, the cell keeps the \<open>T()\<close> it was
  constructed with, so the carrier tests true and its dereference gives \<open>T()\<close>; a caller that
  awaits this frame is resumed with \<open>T()\<close> as if the call had succeeded.
\<close>

theorem fault_is_swallowed:
  assumes "invoke f d w = (r, Faulted, w')"
  shows "unhandled_exception p w' = w'
       \<and> (\<exists>new. trace w' = trace w @ new \<and> writes (result_value r) new = [])
       \<and> operator_bool r w' \<and> operator_star r w' = Inr d
       \<and> run (CoAwait d f k) h w = run (k d) h w'"
proof -
  from invoke_shape [OF assms] obtain pre where r: "r = Result (nxt w)"
    and tr: "trace w' = trace w @ pre @ final_write (nxt w) Faulted (heap w' (nxt w))
         @ map (Released (nxt w)) (rev (constructed (nxt w) pre)) @ [FrameDestroyed (nxt w)]"
    and pre: "list_all (body_event (nxt w) (Suc (nxt w))) pre"
    and slot: "heap w' (nxt w) = Value d"
    by auto
  from body_events_quiet [OF pre, of "nxt w"] have "writes (nxt w) pre = []"
    by simp
  with tr r have "\<exists>new. trace w' = trace w @ new \<and> writes (result_value r) new = []"
    by simp
  moreover have "co_await r h w' = (Resumed d, h, w')"
    using slot r by (simp add: co_await_value)
  ultimately show ?thesis
    using slot r assms
    by (simp add: unhandled_exception_def operator_bool_def operator_star_def run_CoAwait
        del: run.simps)
qed

theorem fault_is_swallowed_witness:
  "invoke (Local 3 Throw) 0 world0 =
     (Result 0, Faulted,
      world0\<lparr>heap := (heap world0)(0 := Value 0), nxt := 1,
             trace := [Constructed 0 3, Released 0 3, FrameDestroyed 0]\<rparr>)
   \<and> operator_bool (Result 0)
       (world0\<lparr>heap := (heap world0)(0 := Value 0), nxt := 1,
             trace := [Constructed 0 3, Released 0 3, FrameDestroyed 0]\<rparr>)
   \<and> operator_star (Result 0)
       (world0\<lparr>heap := (heap world0)(0 := Value 0), nxt := 1,
             trace := [Constructed 0 3, Released 0 3, FrameDestroyed 0]\<rparr>)
     = Inr 0"
proof -
  have a: "invoke (Local 3 Throw) 0 world0 =
     (Result 0, Faulted,
      world0\<lparr>heap := (heap world0)(0 := Value 0), nxt := 1,
             trace := [Constructed 0 3, Released 0 3, FrameDestroyed 0]\<rparr>)"
    by (simp add: invoke_run run_Throw world0_def new_frame_def del: run.simps(2))
  from fault_is_swallowed [OF a] a show ?thesis
    by simp
qed

text \<open>
  C7, as stated, fails: the cell of a promise that has just been constructed already
  holds a value, \<open>T()\<close>; it tests true and dereferences to \<open>0\<close> here. There is no state in
  which it holds neither a value nor an error.
\<close>

theorem fresh_slot_tests_true:
  "operator_bool (get_return_object (fst (promise_ctor 0 world0))) (snd (promise_ctor 0 world0))
   \<and> operator_star (get_return_object (fst (promise_ctor 0 world0))) (snd (promise_ctor 0 world0))
       = Inr 0"
  by (simp add: operator_bool_def operator_star_def get_return_object_def promise_ctor_def
      world0_def)

text \<open>
  C7, amended. A cell has two states: it holds a value or it holds an error code. A
  freshly allocated cell holds the value \<open>T()\<close> and tests true, and a frame during whose run
  no write to its cell happens leaves it so.
\<close>

theorem fresh_slot_holds_default:
  "(has_value s \<or> (\<exists>e. s = Unexpected e))
   \<and> heap (snd (promise_ctor d w)) (promise_value (fst (promise_ctor d w))) = Value d
   \<and> operator_bool (get_return_object (fst (promise_ctor d w))) (snd (promise_ctor d w))
   \<and> (invoke f d w = (r, out, w') \<and> trace w' = trace w @ new \<and> writes (result_value r) new = []
        \<longrightarrow> heap w' (result_value r) = Value d \<and> operator_bool r w')"
proof -
  have "has_value s \<or> (\<exists>e. s = Unexpected e)"
    by (cases s) simp_all
  moreover have "heap (snd (promise_ctor d w)) (promise_value (fst (promise_ctor d w))) = Value d"
    by (simp add: promise_ctor_def)
  moreover have "heap w' (result_value r) = Value d"
    if inv: "invoke f d w = (r, out, w')" and tr: "trace w' = trace w @ new"
      and quiet: "writes (result_value r) new = []"
  proof -
    from invoke_shape [OF inv] obtain pre where r: "r = Result (nxt w)"
      and tr': "trace w' = trace w @ pre @ final_write (nxt w) out (heap w' (nxt w))
         @ map (Released (nxt w)) (rev (constructed (nxt w) pre)) @ [FrameDestroyed (nxt w)]"
      and slot: "slot_after out (Value d) (heap w' (nxt w))"
      by auto
    from tr tr' have "new = pre @ final_write (nxt w) out (heap w' (nxt w))
         @ map (Released (nxt w)) (rev (constructed (nxt w) pre)) @ [FrameDestroyed (nxt w)]"
      by simp
    with quiet r have "writes (nxt w) (final_write (nxt w) out (heap w' (nxt w))) = []"
      by simp
    with slot show ?thesis
      using r by (cases out) simp_all
  qed
  ultimately show ?thesis
    by (auto simp: operator_bool_def get_return_object_def)
qed

theorem fresh_slot_holds_default_witness:
  "invoke (Local 3 Throw) 0 world0 =
     (Result 0, Faulted,
      world0\<lparr>heap := (heap world0)(0 := Value 0), nxt := 1,
             trace := [Constructed 0 3, Released 0 3, FrameDestroyed 0]\<rparr>)
   \<and> trace (world0\<lparr>heap := (heap world0)(0 := Value 0), nxt := 1,
             trace := [Constructed 0 3, Released 0 3, FrameDestroyed 0]\<rparr>)
       = trace world0 @ [Constructed 0 3, Released 0 3, FrameDestroyed 0]
   \<and> writes (result_value (Result 0)) [Constructed 0 3, Released 0 3, FrameDestroyed 0 :: nat event] = []
   \<and> heap (world0\<lparr>heap := (heap world0)(0 := Value 0), nxt := 1,
             trace := [Constructed 0 3, Released 0 3, FrameDestroyed 0]\<rparr>) (result_value (Result 0))
       = Value 0
   \<and> heap (snd (promise_ctor 0 world0)) (promise_value (fst (promise_ctor 0 world0))) = Value 0"
proof -
  let ?w' = "world0\<lparr>heap := (heap world0)(0 := Value 0), nxt := 1,
             trace := [Constructed 0 3, Released 0 3, FrameDestroyed 0]\<rparr>"
  have a: "invoke (Local 3 Throw) 0 world0 = (Result 0, Faulted, ?w')"
    by (simp add: invoke_run run_Throw world0_def new_frame_def del: run.simps(2))
  have b: "trace ?w' = trace world0 @ [Constructed 0 3, Released 0 3, FrameDestroyed 0]"
    by (simp add: world0_def)
  have c: "writes (result_value (Result 0)) [Constructed 0 3, Released 0 3, FrameDestroyed 0 :: nat event] = []"
    by simp
  from fresh_slot_holds_default [of "Value 0" 0 world0 "Local 3 Throw" "Result 0" Faulted ?w'
      "[Constructed 0 3, Released 0 3, FrameDestroyed 0]"] a b c
  show ?thesis
    by simp
qed

text \<open>
  C2. A frame that ends at an await on an error carrier: what the call adds to the trace
  is some events \<open>pre\<close>, during which the frame releases nothing, then the write of the
  error to its cell, then the release of every automatic object the frame constructed
  during \<open>pre\<close>, each once and in the reverse order of construction, then the destruction
  of the frame, and nothing more: all of it is in the trace when the call returns to the
  caller.
\<close>

theorem locals_released_in_reverse:
  assumes "invoke f d w = (r, Propagated, w')"
  shows "\<exists>pre e. trace w' = trace w @ pre @ SlotWrite (result_value r) (Unexpected e)
                    # map (Released (result_value r)) (rev (constructed (result_value r) pre))
                    @ [FrameDestroyed (result_value r)]
               \<and> released (result_value r) pre = []"
proof -
  from invoke_shape [OF assms] obtain pre where r: "r = Result (nxt w)"
    and tr: "trace w' = trace w @ pre @ final_write (nxt w) Propagated (heap w' (nxt w))
         @ map (Released (nxt w)) (rev (constructed (nxt w) pre)) @ [FrameDestroyed (nxt w)]"
    and pre: "list_all (body_event (nxt w) (Suc (nxt w))) pre"
    and slot: "\<not> has_value (heap w' (nxt w))"
    by auto
  from slot obtain e where e: "heap w' (nxt w) = Unexpected e"
    by (cases "heap w' (nxt w)") simp_all
  from body_events_quiet [OF pre, of "nxt w"] have "released (nxt w) pre = []"
    by simp
  with tr r e show ?thesis
    by auto
qed

theorem locals_released_in_reverse_witness:
  "invoke (Local 1 (Local 2 (CoAwait 0 (Local 7 (CoReturn (Unexpected 13)))
             (\<lambda>v. Local 3 (CoReturn (Value v)))))) 0 world0 =
     (Result 0, Propagated,
      world0\<lparr>heap := (heap world0)(0 := Unexpected 13, 1 := Unexpected 13), nxt := 2,
             trace := [Constructed 0 1, Constructed 0 2, Constructed 1 7,
                       SlotWrite 1 (Unexpected 13), Released 1 7, FrameDestroyed 1,
                       SlotWrite 0 (Unexpected 13), Released 0 2, Released 0 1,
                       FrameDestroyed 0]\<rparr>)
   \<and> (\<exists>pre e. [Constructed 0 1, Constructed 0 2, Constructed 1 7,
                       SlotWrite 1 (Unexpected 13), Released 1 7, FrameDestroyed 1,
                       SlotWrite 0 (Unexpected 13), Released 0 2, Released 0 1,
                       FrameDestroyed 0 :: nat event]
         = pre @ SlotWrite 0 (Unexpected e) # map (Released 0) (rev (constructed 0 pre))
            @ [FrameDestroyed 0] \<and> released 0 pre = [])"
proof -
  have a: "invoke (Local 1 (Local 2 (CoAwait 0 (Local 7 (CoReturn (Unexpected 13)))
             (\<lambda>v. Local 3 (CoReturn (Value v)))))) 0 world0 =
     (Result 0, Propagated,
      world0\<lparr>heap := (heap world0)(0 := Unexpected 13, 1 := Unexpected 13), nxt := 2,
             trace := [Constructed 0 1, Constructed 0 2, Constructed 1 7,
                       SlotWrite 1 (Unexpected 13), Released 1 7, FrameDestroyed 1,
                       SlotWrite 0 (Unexpected 13), Released 0 2, Released 0 1,
                       FrameDestroyed 0]\<rparr>)"
    by (simp add: invoke_run run_CoAwait run_CoReturn co_await_error world0_def new_frame_def
        fun_upd_twist del: run.simps(1,5))
  from locals_released_in_reverse [OF a] a show ?thesis
    by (simp add: world0_def)
qed

text \<open>
  C6, as stated, fails: a frame whose body ends by an exception is a frame too, and during
  its whole call its cell is never written. Here the body declares one automatic object
  and throws: the call ends \<open>Faulted\<close>, and the trace holds the construction, the release
  and the destruction of the frame, and no write to cell \<open>0\<close>, not exactly one.
\<close>

theorem faulting_frame_never_writes:
  "invoke (Local 3 Throw) 0 world0 =
     (Result 0, Faulted,
      world0\<lparr>heap := (heap world0)(0 := Value 0), nxt := 1,
             trace := [Constructed 0 3, Released 0 3, FrameDestroyed 0]\<rparr>)
   \<and> writes 0 [Constructed 0 3, Released 0 3, FrameDestroyed 0 :: nat event] = []
   \<and> length (writes 0 [Constructed 0 3, Released 0 3, FrameDestroyed 0 :: nat event]) \<noteq> 1"
  by (simp add: invoke_run run_Throw world0_def new_frame_def del: run.simps(2))

text \<open>
  C6, amended. Every call of a frame ends in one of four ways, and what it adds to the
  trace writes the frame's cell as follows: a frame that ends by \<open>co_return x\<close> (a value or
  an error) writes its cell exactly once, with \<open>x\<close>; a frame that is destroyed at an await
  on an error carrier writes its cell exactly once, with an error code; in both cases the
  cell holds the written content when the call returns; a frame whose body ends by an
  exception writes its cell not at all. Afterwards, whatever any other frame \<open>h2\<close> runs, in
  any world in which the cell is allocated, neither changes the cell nor writes to it.
\<close>

theorem slot_written_once:
  assumes "invoke f d w = (r, out, w')"
    and "run g h2 w2 = (out2, h2', w2')"
    and "slot_of h2 < nxt w2" and "result_value r < nxt w2" and "slot_of h2 \<noteq> result_value r"
  shows "(\<exists>new. trace w' = trace w @ new \<and>
            (case out of
               Returned x \<Rightarrow>
                 writes (result_value r) new = [x] \<and> heap w' (result_value r) = x
             | Propagated \<Rightarrow>
                 (\<exists>e. writes (result_value r) new = [Unexpected e]
                    \<and> heap w' (result_value r) = Unexpected e)
             | Faulted \<Rightarrow> writes (result_value r) new = []
             | NotStarted \<Rightarrow> False
             | Undefined fl \<Rightarrow> False))
       \<and> heap w2' (result_value r) = heap w2 (result_value r)
       \<and> (\<exists>new. trace w2' = trace w2 @ new \<and> writes (result_value r) new = [])"
proof -
  from invoke_shape [OF assms(1)] obtain pre where r: "r = Result (nxt w)"
    and tr: "trace w' = trace w @ pre @ final_write (nxt w) out (heap w' (nxt w))
         @ map (Released (nxt w)) (rev (constructed (nxt w) pre)) @ [FrameDestroyed (nxt w)]"
    and pre: "list_all (body_event (nxt w) (Suc (nxt w))) pre"
    and slot: "slot_after out (Value d) (heap w' (nxt w))"
    by auto
  define new where "new = pre @ final_write (nxt w) out (heap w' (nxt w))
         @ map (Released (nxt w)) (rev (constructed (nxt w) pre)) @ [FrameDestroyed (nxt w)]"
  from body_events_quiet [OF pre, of "nxt w"] have q: "writes (nxt w) pre = []"
    by simp
  then have wr: "writes (nxt w) new = writes (nxt w) (final_write (nxt w) out (heap w' (nxt w)))"
    by (simp add: new_def)
  have "case out of
               Returned x \<Rightarrow> writes (nxt w) new = [x] \<and> heap w' (nxt w) = x
             | Propagated \<Rightarrow>
                 (\<exists>e. writes (nxt w) new = [Unexpected e] \<and> heap w' (nxt w) = Unexpected e)
             | Faulted \<Rightarrow> writes (nxt w) new = []
             | NotStarted \<Rightarrow> False
             | Undefined fl \<Rightarrow> False"
  proof (cases out)
    case (Returned x)
    with slot wr show ?thesis by simp
  next
    case Propagated
    with slot obtain e where "heap w' (nxt w) = Unexpected e"
      by (cases "heap w' (nxt w)") simp_all
    with Propagated wr show ?thesis by simp
  next
    case Faulted
    with wr show ?thesis by simp
  next
    case NotStarted
    with slot show ?thesis by simp
  next
    case (Undefined fl)
    with slot show ?thesis by simp
  qed
  moreover have "trace w' = trace w @ new"
    using tr by (simp add: new_def)
  ultimately have "\<exists>new. trace w' = trace w @ new \<and>
            (case out of
               Returned x \<Rightarrow> writes (nxt w) new = [x] \<and> heap w' (nxt w) = x
             | Propagated \<Rightarrow>
                 (\<exists>e. writes (nxt w) new = [Unexpected e] \<and> heap w' (nxt w) = Unexpected e)
             | Faulted \<Rightarrow> writes (nxt w) new = []
             | NotStarted \<Rightarrow> False
             | Undefined fl \<Rightarrow> False)"
    by blast
  moreover have rv: "result_value r = nxt w"
    using r by simp
  moreover note run_quiet [OF assms(2,3,4,5)]
  ultimately show ?thesis
    unfolding rv by blast
qed

text \<open>
  The theorem at a frame that constructs an automatic object and awaits a callee that
  fails with code \<open>13\<close>: \<open>await_suspend\<close> writes \<open>Unexpected 13\<close> to cell \<open>0\<close>, once, and the
  frame is destroyed. A coroutine called afterwards (cell \<open>2\<close>) returns \<open>4\<close> and leaves cell
  \<open>0\<close> alone.
\<close>

theorem slot_written_once_witness:
  "invoke (Local 1 (CoAwait 0 (CoReturn (Unexpected 13)) (\<lambda>v. CoReturn (Value v)))) 0 world0 =
     (Result 0, Propagated,
      world0\<lparr>heap := (heap world0)(0 := Unexpected 13, 1 := Unexpected 13), nxt := 2,
             trace := [Constructed 0 1, SlotWrite 1 (Unexpected 13), FrameDestroyed 1,
                       SlotWrite 0 (Unexpected 13), Released 0 1, FrameDestroyed 0]\<rparr>)
   \<and> writes 0 [Constructed 0 1, SlotWrite 1 (Unexpected 13), FrameDestroyed 1,
                SlotWrite 0 (Unexpected 13), Released 0 1, FrameDestroyed 0 :: nat event]
       = [Unexpected 13]
   \<and> run (CoReturn (Value 4)) (new_frame (Promise 2))
        (world0\<lparr>heap := (heap world0)(0 := Unexpected 13, 1 := Unexpected 13, 2 := Value 0),
                nxt := 3,
                trace := [Constructed 0 1, SlotWrite 1 (Unexpected 13), FrameDestroyed 1,
                          SlotWrite 0 (Unexpected 13), Released 0 1, FrameDestroyed 0]\<rparr>)
     = (Returned (Value 4), new_frame (Promise 2)\<lparr>locals := [], destroyed := True\<rparr>,
        world0\<lparr>heap := (heap world0)(0 := Unexpected 13, 1 := Unexpected 13, 2 := Value 4),
                nxt := 3,
                trace := [Constructed 0 1, SlotWrite 1 (Unexpected 13), FrameDestroyed 1,
                          SlotWrite 0 (Unexpected 13), Released 0 1, FrameDestroyed 0,
                          SlotWrite 2 (Value 4), FrameDestroyed 2]\<rparr>)
   \<and> slot_of (new_frame (Promise 2)) < 3 \<and> result_value (Result 0) < 3
   \<and> slot_of (new_frame (Promise 2)) \<noteq> result_value (Result 0)
   \<and> (\<exists>new. [Constructed 0 1, SlotWrite 1 (Unexpected 13), FrameDestroyed 1,
               SlotWrite 0 (Unexpected 13), Released 0 1, FrameDestroyed 0 :: nat event] = new
          \<and> (\<exists>e. writes 0 new = [Unexpected e]))
   \<and> heap (world0\<lparr>heap := (heap world0)(0 := Unexpected 13, 1 := Unexpected 13, 2 := Value 4),
                nxt := 3,
                trace := [Constructed 0 1, SlotWrite 1 (Unexpected 13), FrameDestroyed 1,
                          SlotWrite 0 (Unexpected 13), Released 0 1, FrameDestroyed 0,
                          SlotWrite 2 (Value 4), FrameDestroyed 2]\<rparr>) 0 = Unexpected 13"
proof -
  let ?f = "Local 1 (CoAwait 0 (CoReturn (Unexpected 13)) (\<lambda>v. CoReturn (Value v)))"
  let ?tr = "[Constructed 0 1, SlotWrite 1 (Unexpected 13), FrameDestroyed 1,
              SlotWrite 0 (Unexpected 13), Released 0 1, FrameDestroyed 0 :: nat event]"
  let ?w' = "world0\<lparr>heap := (heap world0)(0 := Unexpected 13, 1 := Unexpected 13), nxt := 2,
             trace := ?tr\<rparr>"
  let ?w2 = "world0\<lparr>heap := (heap world0)(0 := Unexpected 13, 1 := Unexpected 13, 2 := Value 0),
                nxt := 3, trace := ?tr\<rparr>"
  let ?w2' = "world0\<lparr>heap := (heap world0)(0 := Unexpected 13, 1 := Unexpected 13, 2 := Value 4),
                nxt := 3, trace := ?tr @ [SlotWrite 2 (Value 4), FrameDestroyed 2]\<rparr>"
  have a: "invoke ?f 0 world0 = (Result 0, Propagated, ?w')"
    by (simp add: invoke_run run_CoAwait run_CoReturn co_await_error world0_def new_frame_def
        fun_upd_twist del: run.simps(1,5))
  have c: "run (CoReturn (Value 4)) (new_frame (Promise 2)) ?w2
     = (Returned (Value 4), new_frame (Promise 2)\<lparr>locals := [], destroyed := True\<rparr>, ?w2')"
    by (simp add: run_CoReturn world0_def new_frame_def del: run.simps(1))
  have d: "slot_of (new_frame (Promise 2)) < nxt ?w2" "result_value (Result 0) < nxt ?w2"
    "slot_of (new_frame (Promise 2)) \<noteq> result_value (Result 0)"
    by (simp_all add: new_frame_def)
  from slot_written_once [OF a c d] a c d show ?thesis
    by (simp add: world0_def new_frame_def del: run.simps(1))
qed

end
